theory Spec2Isabelle
  imports Main "HOL-Library.Word" "HOL-Library.Sublist"
begin

unbundle bit_operations_syntax

section \<open>Values shared by the server and the client\<close>

type_synonym byte = "8 word"

subsection \<open>Hexadecimal and decimal rendering\<close>

text \<open>
  \<open>digest('hex')\<close> renders every byte of a digest as two lowercase hexadecimal
  characters, high nibble first.
\<close>

definition hex_digit :: "nat \<Rightarrow> char" where
  "hex_digit n = ''0123456789abcdef'' ! n"

definition hex_byte :: "byte \<Rightarrow> string" where
  "hex_byte b = [hex_digit (unat b div 16), hex_digit (unat b mod 16)]"

definition hex :: "byte list \<Rightarrow> string" where
  "hex bs = concat (map hex_byte bs)"

definition lower_hex :: "char set" where
  "lower_hex = set ''0123456789abcdef''"

text \<open>
  \<open>Date.now().toString()\<close>: the decimal numeral of an integer number of
  milliseconds, with a leading minus sign for a clock set before the epoch.
\<close>

definition dec_digit :: "nat \<Rightarrow> char" where
  "dec_digit n = ''0123456789'' ! n"

fun nat_toString :: "nat \<Rightarrow> string" where
  "nat_toString n =
     (if n < 10 then [dec_digit n] else nat_toString (n div 10) @ [dec_digit (n mod 10)])"

declare nat_toString.simps [simp del]

definition toString :: "int \<Rightarrow> string" where
  "toString i = (if i < 0 then CHR ''-'' # nat_toString (nat (- i)) else nat_toString (nat i))"

text \<open>
  Strings are lists of code units below 256, each a code point of its own. A string
  handed to \<open>hash.update\<close> is hashed in its UTF-8 encoding: one byte for a code point
  below 128, two bytes for the others.
\<close>

definition utf8_unit :: "char \<Rightarrow> byte list" where
  "utf8_unit c =
     (let n = (of_char c :: nat)
      in if n < 128 then [of_nat n] else [of_nat (192 + n div 64), of_nat (128 + n mod 64)])"

definition utf8 :: "string \<Rightarrow> byte list" where
  "utf8 s = concat (map utf8_unit s)"

subsection \<open>The \<open>crypto\<close> hash object\<close>

text \<open>
  The digest algorithms belong to the runtime's \<open>crypto\<close> module, which is not part of
  the repository: they are a parameter, a function from the algorithm's name and the
  message to the digest bytes. A hash object remembers its algorithm and the bytes it
  was fed; \<open>update\<close> appends, \<open>digest('hex')\<close> renders the digest of everything fed.
\<close>

type_synonym crypto = "string \<Rightarrow> byte list \<Rightarrow> byte list"

record hash_object =
  algorithm :: string
  message :: "byte list"

definition createHash :: "string \<Rightarrow> hash_object" where
  "createHash alg = \<lparr>algorithm = alg, message = []\<rparr>"

definition update :: "hash_object \<Rightarrow> byte list \<Rightarrow> hash_object" where
  "update h d = h\<lparr>message := message h @ d\<rparr>"

definition digest_hex :: "crypto \<Rightarrow> hash_object \<Rightarrow> string" where
  "digest_hex lib h = hex (lib (algorithm h) (message h))"

subsection \<open>The digests of the runtime\<close>

text \<open>
  For concrete runs the two algorithms the server names, SHA-256 and SHA-1, are written
  out from their standard (FIPS 180-4): padding to 64-byte blocks, the message schedule
  and the compression function, over 32-bit words with wrap-around addition.
\<close>

type_synonym w32 = "32 word"

definition K256 :: "w32 list" where
  "K256 = [
    0x428A2F98, 0x71374491, 0xB5C0FBCF, 0xE9B5DBA5, 0x3956C25B, 0x59F111F1, 0x923F82A4, 0xAB1C5ED5,
    0xD807AA98, 0x12835B01, 0x243185BE, 0x550C7DC3, 0x72BE5D74, 0x80DEB1FE, 0x9BDC06A7, 0xC19BF174,
    0xE49B69C1, 0xEFBE4786, 0x0FC19DC6, 0x240CA1CC, 0x2DE92C6F, 0x4A7484AA, 0x5CB0A9DC, 0x76F988DA,
    0x983E5152, 0xA831C66D, 0xB00327C8, 0xBF597FC7, 0xC6E00BF3, 0xD5A79147, 0x06CA6351, 0x14292967,
    0x27B70A85, 0x2E1B2138, 0x4D2C6DFC, 0x53380D13, 0x650A7354, 0x766A0ABB, 0x81C2C92E, 0x92722C85,
    0xA2BFE8A1, 0xA81A664B, 0xC24B8B70, 0xC76C51A3, 0xD192E819, 0xD6990624, 0xF40E3585, 0x106AA070,
    0x19A4C116, 0x1E376C08, 0x2748774C, 0x34B0BCB5, 0x391C0CB3, 0x4ED8AA4A, 0x5B9CCA4F, 0x682E6FF3,
    0x748F82EE, 0x78A5636F, 0x84C87814, 0x8CC70208, 0x90BEFFFA, 0xA4506CEB, 0xBEF9A3F7, 0xC67178F2]"

definition H256 :: "w32 list" where
  "H256 = [0x6a09e667, 0xbb67ae85, 0x3c6ef372, 0xa54ff53a,
           0x510e527f, 0x9b05688c, 0x1f83d9ab, 0x5be0cd19]"

definition H1 :: "w32 list" where
  "H1 = [0x67452301, 0xefcdab89, 0x98badcfe, 0x10325476, 0xc3d2e1f0]"

definition be32 :: "byte list \<Rightarrow> w32" where
  "be32 bs = foldl (\<lambda>w b. push_bit 8 w OR ucast b) 0 bs"

definition bytes32 :: "w32 \<Rightarrow> byte list" where
  "bytes32 w = [ucast (drop_bit 24 w), ucast (drop_bit 16 w), ucast (drop_bit 8 w), ucast w]"

definition bytes64 :: "64 word \<Rightarrow> byte list" where
  "bytes64 w = map (\<lambda>i. ucast (drop_bit (8 * i) w)) [7, 6, 5, 4, 3, 2, 1, 0]"

definition pad :: "byte list \<Rightarrow> byte list" where
  "pad m = m @ [0x80] @ replicate ((119 - length m mod 64) mod 64) 0
             @ bytes64 (word_of_nat (8 * length m))"

fun blocks :: "nat \<Rightarrow> byte list \<Rightarrow> byte list list" where
  "blocks 0 bs = []"
| "blocks (Suc n) bs = take 64 bs # blocks n (drop 64 bs)"

fun words :: "nat \<Rightarrow> byte list \<Rightarrow> w32 list" where
  "words 0 bs = []"
| "words (Suc n) bs = be32 (take 4 bs) # words n (drop 4 bs)"

definition ssig0 :: "w32 \<Rightarrow> w32" where
  "ssig0 x = word_rotr 7 x XOR word_rotr 18 x XOR drop_bit 3 x"

definition ssig1 :: "w32 \<Rightarrow> w32" where
  "ssig1 x = word_rotr 17 x XOR word_rotr 19 x XOR drop_bit 10 x"

definition bsig0 :: "w32 \<Rightarrow> w32" where
  "bsig0 x = word_rotr 2 x XOR word_rotr 13 x XOR word_rotr 22 x"

definition bsig1 :: "w32 \<Rightarrow> w32" where
  "bsig1 x = word_rotr 6 x XOR word_rotr 11 x XOR word_rotr 25 x"

text \<open>The message schedules are built newest word first.\<close>

fun schedule256 :: "nat \<Rightarrow> w32 list \<Rightarrow> w32 list" where
  "schedule256 0 ws = ws"
| "schedule256 (Suc n) ws =
     schedule256 n ((ssig1 (ws ! 1) + ws ! 6 + ssig0 (ws ! 14) + ws ! 15) # ws)"

fun round256 :: "w32 list \<Rightarrow> w32 \<times> w32 \<Rightarrow> w32 list" where
  "round256 [a, b, c, d, e, f, g, h] (k, w) =
     (let t1 = h + bsig1 e + ((e AND f) XOR (NOT e AND g)) + k + w;
          t2 = bsig0 a + ((a AND b) XOR (a AND c) XOR (b AND c))
      in [t1 + t2, a, b, c, d + t1, e, f, g])"
| "round256 s _ = s"

definition compress256 :: "w32 list \<Rightarrow> byte list \<Rightarrow> w32 list" where
  "compress256 hs blk =
     (let ws = rev (schedule256 48 (rev (words 16 blk)))
      in map2 (+) hs (foldl round256 hs (zip K256 ws)))"

definition sha256 :: "byte list \<Rightarrow> byte list" where
  "sha256 m =
     (let p = pad m
      in concat (map bytes32 (foldl compress256 H256 (blocks (length p div 64) p))))"

fun schedule1 :: "nat \<Rightarrow> w32 list \<Rightarrow> w32 list" where
  "schedule1 0 ws = ws"
| "schedule1 (Suc n) ws =
     schedule1 n (word_rotl 1 (ws ! 2 XOR ws ! 7 XOR ws ! 13 XOR ws ! 15) # ws)"

fun round1 :: "w32 list \<Rightarrow> nat \<times> w32 \<Rightarrow> w32 list" where
  "round1 [a, b, c, d, e] (t, w) =
     (let f = (if t < 20 then (b AND c) OR (NOT b AND d)
               else if t < 40 then b XOR c XOR d
               else if t < 60 then (b AND c) OR (b AND d) OR (c AND d)
               else b XOR c XOR d);
          k = (if t < 20 then 0x5a827999
               else if t < 40 then 0x6ed9eba1
               else if t < 60 then 0x8f1bbcdc
               else 0xca62c1d6)
      in [word_rotl 5 a + f + e + k + w, a, word_rotl 30 b, c, d])"
| "round1 s _ = s"

definition compress1 :: "w32 list \<Rightarrow> byte list \<Rightarrow> w32 list" where
  "compress1 hs blk =
     (let ws = rev (schedule1 64 (rev (words 16 blk)))
      in map2 (+) hs (foldl round1 hs (zip [0..<80] ws)))"

definition sha1 :: "byte list \<Rightarrow> byte list" where
  "sha1 m =
     (let p = pad m
      in concat (map bytes32 (foldl compress1 H1 (blocks (length p div 64) p))))"

definition node_crypto :: crypto where
  "node_crypto alg m =
     (if alg = ''sha256'' then sha256 m else if alg = ''sha1'' then sha1 m else [])"

section \<open>The on-chain ledger (blockchain/contracts/FileIntegrity.sol)\<close>

text \<open>
  The contract keeps the same registrations on chain. A mapping holds the zero value
  at every key that was never written; \<open>uint256\<close> arithmetic is checked, so the
  increment of the counter reverts with a panic instead of wrapping; a failed
  \<open>require\<close> reverts with its message and leaves the storage as it was.
\<close>

type_synonym uint256 = "256 word"
type_synonym address = "160 word"

record chain_record =
  fileName :: string
  fileHash :: string
  ipfsHash :: string
  uploader :: address
  timestamp :: uint256
  description :: string
  exists :: bool

datatype event =
    FileUploaded uint256 string string string address uint256
  | FileVerified uint256 string bool address

record contract =
  files' :: "uint256 \<Rightarrow> chain_record"
  hashToFileId :: "string \<Rightarrow> uint256"
  uploaderFiles :: "address \<Rightarrow> uint256 list"
  currentFileId :: uint256
  emitted :: "event list"

record call =
  msg_sender :: address
  block_timestamp :: uint256

datatype revert = Revert string | Panic nat

definition deployed :: contract where
  "deployed =
     \<lparr>files' = (\<lambda>i. \<lparr>fileName = [], fileHash = [], ipfsHash = [], uploader = 0,
                      timestamp = 0, description = [], exists = False\<rparr>),
      hashToFileId = (\<lambda>h. 0),
      uploaderFiles = (\<lambda>a. []),
      currentFileId = 0,
      emitted = []\<rparr>"

definition uploadFile ::
  "call \<Rightarrow> string \<Rightarrow> string \<Rightarrow> string \<Rightarrow> string \<Rightarrow> contract \<Rightarrow> revert + (uint256 \<times> contract)" where
  "uploadFile c name hash ipfs descr s =
     (if \<not> length name > 0 then Inl (Revert ''File name cannot be empty'')
      else if \<not> length hash > 0 then Inl (Revert ''File hash cannot be empty'')
      else if \<not> hashToFileId s hash = 0 then Inl (Revert ''File with this hash already exists'')
      else if currentFileId s = - 1 then Inl (Panic 17)
      else
        (let fileId = currentFileId s + 1
         in Inr (fileId,
              s\<lparr>currentFileId := fileId,
                files' := (files' s)(fileId :=
                  \<lparr>fileName = name, fileHash = hash, ipfsHash = ipfs,
                   uploader = msg_sender c, timestamp = block_timestamp c,
                   description = descr, exists = True\<rparr>),
                hashToFileId := (hashToFileId s)(hash := fileId),
                uploaderFiles := (uploaderFiles s)
                  (msg_sender c := uploaderFiles s (msg_sender c) @ [fileId]),
                emitted := emitted s @
                  [FileUploaded fileId name hash ipfs (msg_sender c) (block_timestamp c)]\<rparr>)))"

definition verifyFile ::
  "call \<Rightarrow> string \<Rightarrow> contract \<Rightarrow> (bool \<times> uint256 \<times> address \<times> uint256) \<times> contract" where
  "verifyFile c hash s =
     (let fileId = hashToFileId s hash;
          isValid = (fileId \<noteq> 0);
          f = files' s fileId;
          s' = s\<lparr>emitted := emitted s @ [FileVerified fileId hash isValid (msg_sender c)]\<rparr>
      in if isValid then ((isValid, fileId, chain_record.uploader f, chain_record.timestamp f), s')
         else ((isValid, fileId, 0, 0), s'))"

definition fileHashExists :: "string \<Rightarrow> contract \<Rightarrow> bool" where
  "fileHashExists hash s = (hashToFileId s hash \<noteq> 0)"

section \<open>The HTTP server (backend/src/server.js)\<close>

subsection \<open>Environment of a request\<close>

text \<open>
  A read stream delivers chunks through \<open>data\<close> events and finishes with \<open>end\<close> or
  with \<open>error\<close>.
\<close>

datatype read_stream =
    Ended "byte list list"
  | Failed "byte list list" string

text \<open>
  What a handler reads from outside the process while it serves one request: the file
  system (\<open>fs.createReadStream\<close>, \<open>fs.unlinkSync\<close>, which throws with a message or
  returns) and the clock. The upload handler reads the clock three times: in
  \<open>simulateIPFSUpload\<close>, for the record's \<open>id\<close> and for its \<open>uploadTime\<close>.
\<close>

record env =
  createReadStream :: "string \<Rightarrow> read_stream"
  unlinkSync :: "string \<Rightarrow> string option"
  now_ipfs :: int
  now_id :: int
  now_iso :: string

subsection \<open>Hashing\<close>

text \<open>
  \<open>calculateFileHash\<close>: every chunk is fed to a SHA-256 hash object; the promise
  resolves with the hexadecimal digest on \<open>end\<close> and rejects on \<open>error\<close>.
\<close>

definition calculateFileHash :: "crypto \<Rightarrow> env \<Rightarrow> string \<Rightarrow> string + string" where
  "calculateFileHash lib e filePath =
     (case createReadStream e filePath of
        Ended chunks \<Rightarrow> Inr (digest_hex lib (foldl update (createHash ''sha256'') chunks))
      | Failed chunks err \<Rightarrow> Inl err)"

definition simulateIPFSUpload :: "crypto \<Rightarrow> env \<Rightarrow> string \<Rightarrow> string" where
  "simulateIPFSUpload lib e filename =
     (let mockHash = digest_hex lib
            (update (createHash ''sha1'') (utf8 (filename @ toString (now_ipfs e))))
      in ''Qm'' @ take 44 mockHash)"

subsection \<open>Requests\<close>

text \<open>
  \<open>req.file\<close> as the multipart middleware leaves it (absent when the request
  carries no file part), and the text field \<open>description\<close> of the form.
\<close>

record multer_file =
  originalname :: string
  path :: string
  size' :: nat
  mimetype :: string

record request =
  file' :: "multer_file option"
  body_description :: "string option"

subsection \<open>Records and responses\<close>

text \<open>
  The object literals of the source. \<open>match_data\<close> is the \<open>data\<close> of a positive
  verification; \<open>FileRecord\<close> is the summary sent by the upload and listing handlers
  (the client's interface of that name); \<open>fileRecord\<close> is the stored record, the
  summary together with the file's path on the server.
\<close>

record match_data =
  id' :: string
  originalName :: string
  fileHash :: string
  uploadTime :: string
  description :: string

record FileRecord = match_data +
  ipfsHash :: string
  size' :: nat
  mimetype :: string

record fileRecord = FileRecord +
  filePath :: string

datatype body =
    ErrorBody string "string option"
  | UploadBody string FileRecord
  | VerifyBody bool string "match_data option" "string option"
  | FilesBody nat "FileRecord list"

type_synonym response = "nat \<times> body"

text \<open>The \<open>data\<close> of a response to an upload, when it is one.\<close>

definition uploaded :: "response \<Rightarrow> FileRecord option" where
  "uploaded resp = (case resp of (st, UploadBody msg d) \<Rightarrow> Some d | _ \<Rightarrow> None)"

subsection \<open>The record table\<close>

text \<open>
  \<open>fileRecords\<close> is a \<open>Map\<close>: its entries are kept in the order in which their keys
  were first set, and setting a key that is present replaces the value in place.
\<close>

type_synonym store = "(string \<times> fileRecord) list"

fun Map_set :: "'k \<Rightarrow> 'v \<Rightarrow> ('k \<times> 'v) list \<Rightarrow> ('k \<times> 'v) list" where
  "Map_set k v [] = [(k, v)]"
| "Map_set k v ((k', v') # m) = (if k' = k then (k, v) # m else (k', v') # Map_set k v m)"

definition Map_values :: "('k \<times> 'v) list \<Rightarrow> 'v list" where
  "Map_values m = map snd m"

subsection \<open>Handlers\<close>

text \<open>Every handler takes the record table and returns its response and the table.\<close>

text \<open>
  The object literal stored by the upload handler (\<open>fileRecord\<close> in the source), and
  the copy of it without \<open>filePath\<close> that the handlers send.
\<close>

definition new_fileRecord :: "crypto \<Rightarrow> env \<Rightarrow> request \<Rightarrow> multer_file \<Rightarrow> string \<Rightarrow> fileRecord" where
  "new_fileRecord lib e req f hash =
     \<lparr>id' = toString (now_id e),
      originalName = originalname f,
      fileHash = hash,
      uploadTime = now_iso e,
      description = (case body_description req of None \<Rightarrow> [] | Some d \<Rightarrow> d),
      ipfsHash = simulateIPFSUpload lib e (originalname f),
      size' = multer_file.size' f,
      mimetype = multer_file.mimetype f,
      filePath = path f\<rparr>"

definition summary :: "fileRecord \<Rightarrow> FileRecord" where
  "summary r =
     \<lparr>id' = id' r,
      originalName = originalName r,
      fileHash = fileHash r,
      uploadTime = uploadTime r,
      description = description r,
      ipfsHash = ipfsHash r,
      size' = size' r,
      mimetype = mimetype r\<rparr>"

definition upload :: "crypto \<Rightarrow> env \<Rightarrow> request \<Rightarrow> store \<Rightarrow> response \<times> store" where
  "upload lib e req fileRecords =
     (case file' req of
        None \<Rightarrow> ((400, ErrorBody ''No file uploaded'' None), fileRecords)
      | Some f \<Rightarrow>
          (case calculateFileHash lib e (path f) of
             Inl err \<Rightarrow>
               ((500, ErrorBody ''Failed to process file upload'' (Some err)), fileRecords)
           | Inr hash \<Rightarrow>
               (let r = new_fileRecord lib e req f hash
                in ((200, UploadBody ''File uploaded and hashed successfully'' (summary r)),
                    Map_set (id' r) r fileRecords))))"

definition found_data :: "fileRecord \<Rightarrow> match_data" where
  "found_data r =
     \<lparr>id' = id' r,
      originalName = originalName r,
      fileHash = fileHash r,
      uploadTime = uploadTime r,
      description = description r\<rparr>"

definition verify :: "crypto \<Rightarrow> env \<Rightarrow> request \<Rightarrow> store \<Rightarrow> response \<times> store" where
  "verify lib e req fileRecords =
     (case file' req of
        None \<Rightarrow> ((400, ErrorBody ''No file provided for verification'' None), fileRecords)
      | Some f \<Rightarrow>
          (case calculateFileHash lib e (path f) of
             Inl err \<Rightarrow> ((500, ErrorBody ''Failed to verify file'' (Some err)), fileRecords)
           | Inr calculatedHash \<Rightarrow>
               (case unlinkSync e (path f) of
                  Some err \<Rightarrow> ((500, ErrorBody ''Failed to verify file'' (Some err)), fileRecords)
                | None \<Rightarrow>
                    (case find (\<lambda>r. fileHash r = calculatedHash) (Map_values fileRecords) of
                       Some matchingRecord \<Rightarrow>
                         ((200, VerifyBody True ''File integrity verified successfully''
                                  (Some (found_data matchingRecord)) None),
                          fileRecords)
                     | None \<Rightarrow>
                         ((200, VerifyBody False ''File not found or has been tampered with''
                                  None (Some calculatedHash)),
                          fileRecords)))))"

text \<open>
  The body of a JSON request holds any JSON value under \<open>fileHash\<close>, or none
  (\<open>Undefined\<close>). Numbers are restricted to integers here; objects and arrays are
  not told apart, since the handler only tests them for truth and compares them with
  strings.
\<close>

datatype jsval = Undefined | Null | Bool bool | Num int | Str string | Object

definition falsy :: "jsval \<Rightarrow> bool" where
  "falsy v = (case v of
       Undefined \<Rightarrow> True
     | Null \<Rightarrow> True
     | Bool b \<Rightarrow> \<not> b
     | Num n \<Rightarrow> n = 0
     | Str s \<Rightarrow> s = []
     | Object \<Rightarrow> False)"

text \<open>\<open>record.fileHash === v\<close> for a string on the left: true for the same string only.\<close>

definition strict_eq :: "string \<Rightarrow> jsval \<Rightarrow> bool" where
  "strict_eq s v = (case v of Str t \<Rightarrow> s = t | _ \<Rightarrow> False)"

definition verify_hash :: "jsval \<Rightarrow> store \<Rightarrow> response \<times> store" where
  "verify_hash h fileRecords =
     (if falsy h then ((400, ErrorBody ''File hash is required'' None), fileRecords)
      else
        (case find (\<lambda>r. strict_eq (fileHash r) h) (Map_values fileRecords) of
           Some matchingRecord \<Rightarrow>
             ((200, VerifyBody True ''File hash found in records''
                      (Some (found_data matchingRecord)) None),
              fileRecords)
         | None \<Rightarrow>
             ((200, VerifyBody False ''File hash not found in records'' None None),
              fileRecords)))"

definition get_files :: "store \<Rightarrow> response \<times> store" where
  "get_files fileRecords =
     (let files = map summary (Map_values fileRecords)
      in ((200, FilesBody (length files) files), fileRecords))"

section \<open>The audit view (src/components/AuditTrail.tsx)\<close>

text \<open>
  The component calls three string methods of the runtime. \<open>trim\<close> and
  \<open>toLowerCase\<close> are parameters, as the digests are; \<open>includes\<close> compares code
  units and looks for a contiguous occurrence of its argument.
\<close>

record string_methods =
  trim :: "string \<Rightarrow> string"
  toLowerCase :: "string \<Rightarrow> string"

definition includes' :: "string \<Rightarrow> string \<Rightarrow> bool" where
  "includes' s t = sublist t s"

text \<open>
  For concrete runs, the two methods on code units below 256: the white space and line
  terminators there are tab, line feed, vertical tab, form feed, carriage return, space
  and the no-break space; the letters with a lowercase form are A to Z and the codes 192
  to 222 without the multiplication sign 215, each 32 below its lowercase form.
\<close>

definition unit_space :: "char \<Rightarrow> bool" where
  "unit_space c = (let n = (of_char c :: nat) in (9 \<le> n \<and> n \<le> 13) \<or> n = 32 \<or> n = 160)"

definition unit_lower :: "char \<Rightarrow> char" where
  "unit_lower c =
     (let n = (of_char c :: nat)
      in if (65 \<le> n \<and> n \<le> 90) \<or> (192 \<le> n \<and> n \<le> 222 \<and> n \<noteq> 215)
         then char_of (n + 32) else c)"

definition js_strings :: string_methods where
  "js_strings =
     \<lparr>trim = (\<lambda>s. rev (dropWhile unit_space (rev (dropWhile unit_space s)))),
      toLowerCase = map unit_lower\<rparr>"

text \<open>
  \<open>loadFiles\<close> keeps the \<open>data\<close> of a successful listing; the filter effect then
  derives the rows shown from the rows loaded and the search term.
\<close>

definition loadFiles :: "response \<Rightarrow> FileRecord list option" where
  "loadFiles resp = (case resp of (st, FilesBody n files) \<Rightarrow> Some files | _ \<Rightarrow> None)"

definition filteredFiles ::
  "string_methods \<Rightarrow> string \<Rightarrow> FileRecord list \<Rightarrow> FileRecord list" where
  "filteredFiles str searchTerm files =
     (if trim str searchTerm = [] then files
      else filter (\<lambda>file.
             includes' (toLowerCase str (originalName file)) (toLowerCase str searchTerm) \<or>
             includes' (toLowerCase str (description file)) (toLowerCase str searchTerm) \<or>
             includes' (toLowerCase str (fileHash file)) (toLowerCase str searchTerm)) files)"

text \<open>
  What the claims call "a case-insensitive substring match": the term, in lowercase,
  occurs as a contiguous part of the field, in lowercase.
\<close>

definition occurs_ignoring_case :: "string_methods \<Rightarrow> string \<Rightarrow> string \<Rightarrow> bool" where
  "occurs_ignoring_case str t s =
     (\<exists>pre post. toLowerCase str s = pre @ toLowerCase str t @ post)"

section \<open>Runs of the server\<close>

text \<open>
  The handlers touch the table in one synchronous step each, so a run of the server is
  a sequence of requests served one after the other. \<open>uploads\<close> serves a sequence of
  upload requests, each with its own environment.
\<close>

fun uploads :: "crypto \<Rightarrow> (env \<times> request) list \<Rightarrow> store \<Rightarrow> store" where
  "uploads lib [] fileRecords = fileRecords"
| "uploads lib ((e, req) # calls) fileRecords =
     uploads lib calls (snd (upload lib e req fileRecords))"

text \<open>
  Sample requests: a file whose stream ends after the given chunks, served at the given
  clock reading, and a multipart request carrying a file of the given name.
\<close>

definition sample_env :: "byte list list \<Rightarrow> int \<Rightarrow> env" where
  "sample_env chunks t =
     \<lparr>createReadStream = (\<lambda>p. Ended chunks), unlinkSync = (\<lambda>p. None),
      now_ipfs = t, now_id = t, now_iso = ''2025-07-12T10:00:00.000Z''\<rparr>"

definition sample_request :: "string \<Rightarrow> nat \<Rightarrow> request" where
  "sample_request name n =
     \<lparr>file' = Some \<lparr>originalname = name, path = ''uploads/'' @ name, size' = n,
                      mimetype = ''text/plain''\<rparr>,
      body_description = Some ''sample''\<rparr>"

section \<open>Auxiliary facts\<close>

subsection \<open>Digests and their rendering\<close>

lemma hex_digit_lower: "n < 16 \<Longrightarrow> hex_digit n \<in> lower_hex"
  unfolding hex_digit_def lower_hex_def by (rule nth_mem) simp

lemma hex_byte_chars: "set (hex_byte b) \<subseteq> lower_hex"
proof -
  have "unat b < 256" using unsigned_less [of b, where ?'a = nat] by simp
  then have "unat b div 16 < 16" by simp
  moreover have "unat b mod 16 < 16" by simp
  ultimately show ?thesis
    by (simp add: hex_byte_def hex_digit_lower)
qed

lemma length_hex: "length (hex bs) = 2 * length bs"
  by (induction bs) (simp_all add: hex_def hex_byte_def)

lemma hex_chars: "set (hex bs) \<subseteq> lower_hex"
  unfolding hex_def using hex_byte_chars by (induction bs) auto

lemma foldl_update: "foldl update h cs = h\<lparr>message := message h @ concat cs\<rparr>"
  by (induction cs arbitrary: h) (simp_all add: update_def)

lemma calculateFileHash_Ended:
  "createReadStream e p = Ended cs \<Longrightarrow>
   calculateFileHash lib e p = Inr (hex (lib ''sha256'' (concat cs)))"
  by (simp add: calculateFileHash_def foldl_update createHash_def digest_hex_def)

lemma calculateFileHash_Failed:
  "createReadStream e p = Failed cs err \<Longrightarrow> calculateFileHash lib e p = Inl err"
  by (simp add: calculateFileHash_def)

lemma length_round256: "length s = 8 \<Longrightarrow> length (round256 s kw) = 8"
  by (cases "(s, kw)" rule: round256.cases) (simp_all add: Let_def)

lemma length_foldl_round256: "length s = 8 \<Longrightarrow> length (foldl round256 s kws) = 8"
  by (induction kws arbitrary: s) (simp_all add: length_round256)

lemma length_compress256: "length hs = 8 \<Longrightarrow> length (compress256 hs blk) = 8"
  by (simp add: compress256_def Let_def length_foldl_round256)

lemma length_foldl_compress256: "length hs = 8 \<Longrightarrow> length (foldl compress256 hs bs) = 8"
  by (induction bs arbitrary: hs) (simp_all add: length_compress256)

lemma length_concat_bytes32: "length (concat (map bytes32 ws)) = 4 * length ws"
  by (induction ws) (simp_all add: bytes32_def)

lemma length_sha256: "length (sha256 m) = 32"
  by (simp add: sha256_def Let_def length_concat_bytes32 length_foldl_compress256 H256_def)

text \<open>The encoding of a letter and of the small e with acute accent.\<close>

lemma utf8_samples:
  "utf8 ''a'' = [0x61]"
  "utf8 [CHR 0xE9] = [0xC3, 0xA9]"
  by code_simp+

text \<open>Two digests of the standard's algorithm, computed by the definitions above.\<close>

lemma sha256_abc:
  "hex (sha256 (utf8 ''abc'')) = ''ba7816bf8f01cfea414140de5dae2223b00361a396177a9cb410ff61f20015ad''"
  by code_simp

lemma sha256_empty:
  "hex (sha256 []) = ''e3b0c44298fc1c149afbf4c8996fb92427ae41e4649b934ca495991b7852b855''"
  by code_simp

subsection \<open>Decimal numerals are injective\<close>

lemma dec_digit_inj: "a < 10 \<Longrightarrow> b < 10 \<Longrightarrow> (dec_digit a = dec_digit b) = (a = b)"
  unfolding dec_digit_def by (rule nth_eq_iff_index_eq) simp_all

lemma nat_toString_not_Nil: "nat_toString n \<noteq> []"
  by (subst nat_toString.simps) simp

lemma dec_digit_not_minus: "n < 10 \<Longrightarrow> dec_digit n \<noteq> CHR ''-''"
proof -
  assume "n < 10"
  then have "dec_digit n \<in> set ''0123456789''"
    unfolding dec_digit_def by (intro nth_mem) simp
  then show ?thesis by auto
qed

lemma hd_nat_toString: "hd (nat_toString n) \<noteq> CHR ''-''"
proof (induction n rule: nat_toString.induct)
  case (1 n)
  show ?case
  proof (cases "n < 10")
    case True
    then show ?thesis by (subst nat_toString.simps) (simp add: dec_digit_not_minus)
  next
    case False
    with 1 show ?thesis
      by (subst nat_toString.simps) (simp add: nat_toString_not_Nil)
  qed
qed

lemma nat_toString_inj: "nat_toString n = nat_toString m \<Longrightarrow> n = m"
proof (induction n arbitrary: m rule: nat_toString.induct)
  case (1 n)
  show ?case
  proof (cases "n < 10")
    case n: True
    show ?thesis
    proof (cases "m < 10")
      case True
      with n "1.prems" show ?thesis
        by (simp add: nat_toString.simps [of n] nat_toString.simps [of m] dec_digit_inj)
    next
      case False
      with n "1.prems" nat_toString_not_Nil [of "m div 10"] show ?thesis
        by (auto simp: nat_toString.simps [of n] nat_toString.simps [of m])
    qed
  next
    case n: False
    show ?thesis
    proof (cases "m < 10")
      case True
      with n "1.prems" nat_toString_not_Nil [of "n div 10"] show ?thesis
        by (auto simp: nat_toString.simps [of n] nat_toString.simps [of m])
    next
      case False
      with n "1.prems" have eq: "nat_toString (n div 10) = nat_toString (m div 10)"
        and d: "dec_digit (n mod 10) = dec_digit (m mod 10)"
        by (simp_all add: nat_toString.simps [of n] nat_toString.simps [of m])
      from "1.IH" [OF n eq] have "n div 10 = m div 10" .
      moreover from d have "n mod 10 = m mod 10" by (simp add: dec_digit_inj)
      ultimately show ?thesis by (metis div_mult_mod_eq)
    qed
  qed
qed

lemma toString_inj: "toString i = toString j \<Longrightarrow> i = j"
proof -
  assume eq: "toString i = toString j"
  have neg: "hd (toString k) = CHR ''-'' \<longleftrightarrow> k < 0" for k
    by (simp add: toString_def hd_nat_toString)
  from eq have same: "i < 0 \<longleftrightarrow> j < 0" using neg [of i] neg [of j] by simp
  show ?thesis
  proof (cases "i < 0")
    case True
    with same eq have "nat_toString (nat (- i)) = nat_toString (nat (- j))"
      by (simp add: toString_def)
    then have "nat (- i) = nat (- j)" by (rule nat_toString_inj)
    with True same show ?thesis by simp
  next
    case False
    with same eq have "nat_toString (nat i) = nat_toString (nat j)"
      by (simp add: toString_def)
    then have "nat i = nat j" by (rule nat_toString_inj)
    with False same show ?thesis by simp
  qed
qed

subsection \<open>The table and the upload handler\<close>

lemma find_first:
  "\<forall>x\<in>set xs. \<not> P x \<Longrightarrow> P r \<Longrightarrow> find P (xs @ r # ys) = Some r"
  by (induction xs) simp_all

lemma Map_set_fresh: "k \<notin> fst ` set m \<Longrightarrow> Map_set k v m = m @ [(k, v)]"
  by (induction m) auto

lemma Map_set_mem: "(k, v) \<in> set (Map_set k v m)"
  by (induction m) auto

lemma upload_Ended:
  assumes "file' req = Some f" and "createReadStream e (path f) = Ended cs"
  shows "upload lib e req s =
           ((200, UploadBody ''File uploaded and hashed successfully''
                    (summary (new_fileRecord lib e req f (hex (lib ''sha256'' (concat cs)))))),
            Map_set (toString (now_id e))
              (new_fileRecord lib e req f (hex (lib ''sha256'' (concat cs)))) s)"
  using assms
  by (simp add: upload_def calculateFileHash_Ended Let_def new_fileRecord_def)

lemma upload_status_200:
  assumes "fst (fst (upload lib e req s0)) = 200"
  shows "\<exists>f cs. file' req = Some f \<and> createReadStream e (path f) = Ended cs"
proof (cases "file' req")
  case None
  with assms show ?thesis by (simp add: upload_def)
next
  case (Some f)
  show ?thesis
  proof (cases "createReadStream e (path f)")
    case (Ended cs)
    with Some show ?thesis by simp
  next
    case (Failed cs err)
    with Some assms show ?thesis by (simp add: upload_def calculateFileHash_Failed)
  qed
qed

lemma uploads_fresh:
  assumes "\<forall>(e, req)\<in>set calls. fst (fst (upload lib e req [])) = 200"
    and "distinct (map (\<lambda>(e, req). now_id e) calls)"
    and "\<forall>(e, req)\<in>set calls. toString (now_id e) \<notin> fst ` set s"
  shows "\<exists>rs. uploads lib calls s = s @ rs \<and>
           list_all2 (\<lambda>(e, req) (k, r). k = toString (now_id e) \<and> (\<forall>s'. upload lib e req s' =
              ((200, UploadBody ''File uploaded and hashed successfully'' (summary r)),
               Map_set k r s'))) calls rs"
  using assms
proof (induction calls arbitrary: s)
  case Nil
  then show ?case by simp
next
  case (Cons c calls)
  obtain e req where c: "c = (e, req)" by (cases c)
  from Cons.prems(1) c have "fst (fst (upload lib e req [])) = 200" by simp
  then obtain f cs where f: "file' req = Some f" "createReadStream e (path f) = Ended cs"
    using upload_status_200 by blast
  define r where "r = new_fileRecord lib e req f (hex (lib ''sha256'' (concat cs)))"
  define k where "k = toString (now_id e)"
  have up: "upload lib e req s' =
      ((200, UploadBody ''File uploaded and hashed successfully'' (summary r)), Map_set k r s')"
    for s'
    by (simp add: r_def k_def upload_Ended [OF f])
  from Cons.prems(3) c have "k \<notin> fst ` set s" by (simp add: k_def)
  then have s1: "snd (upload lib e req s) = s @ [(k, r)]"
    by (simp add: up Map_set_fresh)
  have fresh: "\<forall>(e', req')\<in>set calls. toString (now_id e') \<notin> fst ` set (s @ [(k, r)])"
  proof -
    have "toString (now_id e') \<notin> fst ` set (s @ [(k, r)])"
      if in_calls: "(e', req') \<in> set calls" for e' req'
    proof
      assume mem: "toString (now_id e') \<in> fst ` set (s @ [(k, r)])"
      from Cons.prems(3) in_calls have "toString (now_id e') \<notin> fst ` set s" by auto
      with mem have "toString (now_id e') = k" by auto
      then have "now_id e' = now_id e" unfolding k_def by (rule toString_inj)
      moreover from Cons.prems(2) c in_calls have "now_id e \<noteq> now_id e'" by force
      ultimately show False by simp
    qed
    then show ?thesis by blast
  qed
  from Cons.prems(1) have ok: "\<forall>(e, req)\<in>set calls. fst (fst (upload lib e req [])) = 200"
    by simp
  from Cons.prems(2) have dist: "distinct (map (\<lambda>(e, req). now_id e) calls)" by simp
  from Cons.IH [OF ok dist fresh]
  obtain rs where rs: "uploads lib calls (s @ [(k, r)]) = (s @ [(k, r)]) @ rs"
    and all: "list_all2 (\<lambda>(e, req) (k, r). k = toString (now_id e) \<and> (\<forall>s'. upload lib e req s' =
              ((200, UploadBody ''File uploaded and hashed successfully'' (summary r)),
               Map_set k r s'))) calls rs"
    by blast
  have "uploads lib (c # calls) s = s @ ((k, r) # rs)"
    using rs s1 by (simp add: c)
  moreover have "list_all2 (\<lambda>(e, req) (k, r). k = toString (now_id e) \<and> (\<forall>s'. upload lib e req s' =
              ((200, UploadBody ''File uploaded and hashed successfully'' (summary r)),
               Map_set k r s'))) (c # calls) ((k, r) # rs)"
    using all up by (simp add: c k_def)
  ultimately show ?case by blast
qed

lemma Map_set_keeps: "(k, r) \<in> set m \<Longrightarrow> k' \<noteq> k \<Longrightarrow> (k, r) \<in> set (Map_set k' v m)"
  by (induction m) auto

lemma upload_keeps:
  "(k, r) \<in> set s \<Longrightarrow> toString (now_id e) \<noteq> k \<Longrightarrow> (k, r) \<in> set (snd (upload lib e req s))"
  by (auto simp: upload_def Let_def new_fileRecord_def Map_set_keeps split: option.splits sum.splits)

lemma uploads_keep:
  "(k, r) \<in> set s \<Longrightarrow> \<forall>(e, req)\<in>set calls. toString (now_id e) \<noteq> k \<Longrightarrow>
   (k, r) \<in> set (uploads lib calls s)"
proof (induction calls arbitrary: s)
  case Nil
  then show ?case by simp
next
  case (Cons c calls)
  obtain e req where c: "c = (e, req)" by (cases c)
  with Cons.prems have "(k, r) \<in> set (snd (upload lib e req s))"
    by (auto intro: upload_keeps)
  with Cons.IH [of "snd (upload lib e req s)"] Cons.prems(2) c show ?case by simp
qed

lemma lower_occurs:
  "includes' (toLowerCase str s) (toLowerCase str t) = occurs_ignoring_case str t s"
  by (simp add: includes'_def occurs_ignoring_case_def sublist_def)

text \<open>
  Where \<open>toLowerCase\<close> works code unit by code unit, as it does below 256, the term
  occurs in this sense exactly when some contiguous part of the field equals it up to
  the case of its letters.
\<close>

lemma occurs_ignoring_case_part:
  "occurs_ignoring_case js_strings t s =
     (\<exists>pre mid post. s = pre @ mid @ post \<and>
        toLowerCase js_strings mid = toLowerCase js_strings t)"
proof
  assume "occurs_ignoring_case js_strings t s"
  then obtain ps ss where "map unit_lower s = ps @ map unit_lower t @ ss"
    by (auto simp: occurs_ignoring_case_def js_strings_def)
  then obtain pre rest where s: "s = pre @ rest"
    and rest: "map unit_lower t @ ss = map unit_lower rest"
    using map_eq_append_conv [of unit_lower s ps "map unit_lower t @ ss"] by blast
  then obtain mid post where "rest = mid @ post"
    and "map unit_lower mid = map unit_lower t"
    using map_eq_append_conv [of unit_lower rest "map unit_lower t" ss] by metis
  with s show "\<exists>pre mid post. s = pre @ mid @ post \<and>
        toLowerCase js_strings mid = toLowerCase js_strings t"
    by (auto simp: js_strings_def)
next
  assume "\<exists>pre mid post. s = pre @ mid @ post \<and>
        toLowerCase js_strings mid = toLowerCase js_strings t"
  then obtain pre mid post where "s = pre @ mid @ post"
    and "map unit_lower mid = map unit_lower t"
    by (auto simp: js_strings_def)
  then have "map unit_lower s = map unit_lower pre @ map unit_lower t @ map unit_lower post"
    by simp
  then show "occurs_ignoring_case js_strings t s"
    unfolding occurs_ignoring_case_def js_strings_def by auto
qed

text \<open>The no-break space is blank, and the capital E with acute accent has a lowercase.\<close>

lemma js_strings_samples:
  "trim js_strings [CHR 0xA0, CHR '' ''] = []"
  "trim js_strings ([CHR 0xA0] @ ''a b'' @ [CHR 0x0A]) = ''a b''"
  "toLowerCase js_strings (''CAF'' @ [CHR 0xC9]) = ''caf'' @ [CHR 0xE9]"
  "toLowerCase js_strings [CHR 0xD7, CHR 0xDF] = [CHR 0xD7, CHR 0xDF]"
  by code_simp+

subsection \<open>The sample requests\<close>

lemma sample_env_sel:
  "createReadStream (sample_env cs t) p = Ended cs"
  "unlinkSync (sample_env cs t) p = None"
  "now_ipfs (sample_env cs t) = t"
  "now_id (sample_env cs t) = t"
  "now_iso (sample_env cs t) = ''2025-07-12T10:00:00.000Z''"
  by (simp_all add: sample_env_def)

lemma sample_request_sel:
  "file' (sample_request name n) =
     Some \<lparr>originalname = name, path = ''uploads/'' @ name, size' = n,
            mimetype = ''text/plain''\<rparr>"
  "body_description (sample_request name n) = Some ''sample''"
  by (simp_all add: sample_request_def)

lemma calculateFileHash_sample:
  "calculateFileHash node_crypto (sample_env cs t) p = Inr (hex (sha256 (concat cs)))"
  by (simp add: calculateFileHash_Ended sample_env_sel node_crypto_def)

lemma upload_sample:
  "upload node_crypto (sample_env cs t) (sample_request name n) s =
     ((200, UploadBody ''File uploaded and hashed successfully''
        (summary (new_fileRecord node_crypto (sample_env cs t) (sample_request name n)
           \<lparr>originalname = name, path = ''uploads/'' @ name, size' = n,
              mimetype = ''text/plain''\<rparr> (hex (sha256 (concat cs)))))),
      Map_set (toString t)
        (new_fileRecord node_crypto (sample_env cs t) (sample_request name n)
           \<lparr>originalname = name, path = ''uploads/'' @ name, size' = n,
              mimetype = ''text/plain''\<rparr> (hex (sha256 (concat cs)))) s)"
  by (simp add: upload_def calculateFileHash_sample Let_def sample_request_sel sample_env_sel
      new_fileRecord_def)

lemma toString_samples:
  "toString 1752314400000 = ''1752314400000''"
  "toString 1752314400001 = ''1752314400001''"
  "toString 1752314400002 = ''1752314400002''"
  by (simp_all add: toString_def nat_toString.simps dec_digit_def)

lemmas sample_simps =
  upload_sample sample_env_sel sample_request_sel toString_samples Map_values_def
  new_fileRecord_def summary_def

section \<open>The claims\<close>

subsection \<open>C1: uniqueness of fingerprints\<close>

text \<open>
  The contract enforces the uniqueness of fingerprints at insertion: once \<open>uploadFile\<close>
  has succeeded for a hash, the hash is bound to a non-zero identifier, and every later
  \<open>uploadFile\<close> with that hash and a non-empty name reverts with
  "File with this hash already exists".
\<close>

lemma uploadFile_rejects_duplicate:
  assumes "uploadFile c name hash ipfs descr s = Inr (fileId, s')"
  shows "fileId \<noteq> 0 \<and> hashToFileId s' hash = fileId \<and>
         (name2 \<noteq> [] \<longrightarrow>
            uploadFile c2 name2 hash ipfs2 descr2 s' =
              Inl (Revert ''File with this hash already exists''))"
proof -
  from assms have ok: "name \<noteq> []" "hash \<noteq> []" "hashToFileId s hash = 0"
    "currentFileId s \<noteq> - 1"
    by (auto simp: uploadFile_def split: if_splits)
  with assms have fid: "fileId = currentFileId s + 1" and s': "hashToFileId s' hash = fileId"
    by (auto simp: uploadFile_def Let_def)
  from ok(4) fid have "fileId \<noteq> 0"
    by (metis add.commute add_eq_0_iff)
  with s' ok(2) show ?thesis by (simp add: uploadFile_def)
qed

lemma uploadFile_twice:
  "(case uploadFile \<lparr>msg_sender = 1, block_timestamp = 1752314400\<rparr> ''test.pdf'' ''0x1234''
           ''QmTest123'' ''Test document'' deployed of
      Inl err \<Rightarrow> False
    | Inr (fileId, s') \<Rightarrow>
        fileId = 1 \<and>
        uploadFile \<lparr>msg_sender = 2, block_timestamp = 1752314401\<rparr> ''test2.pdf'' ''0x1234''
          ''QmTest456'' ''Another test'' s' =
          Inl (Revert ''File with this hash already exists''))"
  by (simp add: uploadFile_def deployed_def)

text \<open>
  Claim C1 (uniqueness is enforced at insertion: after a registration has succeeded, a
  second registration of byte-identical content fails with DuplicateFingerprint and adds
  no record). The upload handler of the server does not do what the contract does: it
  never compares the new fingerprint with the stored ones. Two uploads of the bytes
  "abc", one millisecond apart, both answer 200, and the table then holds two records
  with the same fingerprint.
\<close>

theorem upload_accepts_duplicate:
  "fst (fst (upload node_crypto (sample_env [utf8 ''abc''] 1752314400000)
               (sample_request ''first.txt'' 3) [])) = 200 \<and>
   fst (fst (upload node_crypto (sample_env [utf8 ''abc''] 1752314400001)
               (sample_request ''second.txt'' 3)
               (uploads node_crypto
                  [(sample_env [utf8 ''abc''] 1752314400000, sample_request ''first.txt'' 3)]
                  []))) = 200 \<and>
   map (\<lambda>r. (id' r, originalName r, fileHash r))
     (Map_values (uploads node_crypto
        [(sample_env [utf8 ''abc''] 1752314400000, sample_request ''first.txt'' 3),
         (sample_env [utf8 ''abc''] 1752314400001, sample_request ''second.txt'' 3)] [])) =
     [(''1752314400000'', ''first.txt'',
       ''ba7816bf8f01cfea414140de5dae2223b00361a396177a9cb410ff61f20015ad''),
      (''1752314400001'', ''second.txt'',
       ''ba7816bf8f01cfea414140de5dae2223b00361a396177a9cb410ff61f20015ad'')]"
  by (simp add: sample_simps sha256_abc)

subsection \<open>C2: round trip\<close>

text \<open>
  After a successful upload, and after any later uploads served at other clock readings
  than its own, a verification of the same bytes (however the stream chunks them) is
  positive and reports the fingerprint computed at registration.
\<close>

lemma round_trip_persists:
  assumes "file' req = Some f" and "createReadStream e (path f) = Ended cs"
    and "\<forall>(e2, req2)\<in>set later. now_id e2 \<noteq> now_id e"
    and "file' req' = Some f'" and "createReadStream e' (path f') = Ended cs'"
    and "unlinkSync e' (path f') = None"
    and "concat cs' = concat cs"
  shows "\<exists>r. fileHash r = hex (lib ''sha256'' (concat cs)) \<and>
           fst (verify lib e' req' (uploads lib later (snd (upload lib e req fileRecords)))) =
             (200, VerifyBody True ''File integrity verified successfully''
                     (Some (found_data r)) None)"
proof -
  let ?h = "hex (lib ''sha256'' (concat cs))"
  let ?r = "new_fileRecord lib e req f ?h"
  let ?k = "toString (now_id e)"
  let ?s = "uploads lib later (snd (upload lib e req fileRecords))"
  have "(?k, ?r) \<in> set (snd (upload lib e req fileRecords))"
    by (simp add: upload_Ended [OF assms(1,2)] Map_set_mem)
  moreover have "\<forall>(e2, req2)\<in>set later. toString (now_id e2) \<noteq> ?k"
    using assms(3) toString_inj by blast
  ultimately have "(?k, ?r) \<in> set ?s" by (rule uploads_keep)
  then have "?r \<in> set (Map_values ?s)" by (force simp: Map_values_def)
  moreover have "fileHash ?r = ?h" by (simp add: new_fileRecord_def)
  ultimately obtain r where r: "find (\<lambda>r. fileHash r = ?h) (Map_values ?s) = Some r"
    by (cases "find (\<lambda>r. fileHash r = ?h) (Map_values ?s)") (auto simp: find_None_iff)
  then have "fileHash r = ?h" by (auto simp: find_Some_iff)
  moreover have "calculateFileHash lib e' (path f') = Inr ?h"
    using assms(5,7) by (simp add: calculateFileHash_Ended)
  ultimately show ?thesis
    using r assms(4,6) by (auto simp: verify_def)
qed

text \<open>
  Claim C2 (for every content whose registration succeeded, verification by content is
  positive and returns the fingerprint of the registration). A record does not survive
  a later upload served within the same millisecond: the later record takes the same
  key of the table and replaces it. After "abc" and the empty file have been uploaded at
  the same clock reading, both with answer 200, verifying "abc" answers \<open>isValid: false\<close>.
\<close>

theorem registered_content_lost:
  "fst (fst (upload node_crypto (sample_env [utf8 ''abc''] 1752314400000)
               (sample_request ''first.txt'' 3) [])) = 200 \<and>
   fst (verify node_crypto (sample_env [utf8 ''abc''] 1752314400002)
          (sample_request ''check.txt'' 3)
          (uploads node_crypto
             [(sample_env [utf8 ''abc''] 1752314400000, sample_request ''first.txt'' 3),
              (sample_env [] 1752314400000, sample_request ''second.txt'' 0)] [])) =
     (200, VerifyBody False ''File not found or has been tampered with'' None
        (Some ''ba7816bf8f01cfea414140de5dae2223b00361a396177a9cb410ff61f20015ad''))"
  by (simp add: sample_simps sha256_abc sha256_empty verify_def calculateFileHash_sample)

subsection \<open>C3: record identifiers\<close>

text \<open>
  Claim C3 (two distinct registrations receive distinct identifiers, ordered by
  creation). The identifier is the decimal numeral of the clock reading in
  milliseconds, so two uploads served at the same reading receive the same identifier,
  and the table keeps one record, the later one, under it.
\<close>

theorem same_millisecond_same_id:
  "map_option id' (uploaded (fst (upload node_crypto (sample_env [utf8 ''abc''] 1752314400000)
               (sample_request ''first.txt'' 3) []))) = Some ''1752314400000'' \<and>
   map_option id' (uploaded (fst (upload node_crypto (sample_env [] 1752314400000)
               (sample_request ''second.txt'' 0)
               (uploads node_crypto
                  [(sample_env [utf8 ''abc''] 1752314400000, sample_request ''first.txt'' 3)]
                  [])))) = Some ''1752314400000'' \<and>
   map (\<lambda>r. (id' r, originalName r, fileHash r))
     (Map_values (uploads node_crypto
        [(sample_env [utf8 ''abc''] 1752314400000, sample_request ''first.txt'' 3),
         (sample_env [] 1752314400000, sample_request ''second.txt'' 0)] [])) =
     [(''1752314400000'', ''second.txt'',
       ''e3b0c44298fc1c149afbf4c8996fb92427ae41e4649b934ca495991b7852b855'')]"
  by (simp add: sample_simps sha256_empty uploaded_def)

subsection \<open>C4: validation before insertion\<close>

text \<open>
  Claim C4, as the code has it: the upload handler answers 400 "No file uploaded"
  whenever the request carries no file, and whenever its answer is not 200 (no file, or
  a stream that fails) the table is left as it was. It makes no test on the content:
  an empty file is registered like any other.
\<close>

theorem upload_requires_file:
  "(file' req = None \<longrightarrow>
      upload lib e req fileRecords = ((400, ErrorBody ''No file uploaded'' None), fileRecords)) \<and>
   (fst (fst (upload lib e req fileRecords)) \<noteq> 200 \<longrightarrow>
      snd (upload lib e req fileRecords) = fileRecords)"
  by (simp add: upload_def Let_def split: option.splits sum.splits)

theorem upload_requires_file_witness:
  "upload node_crypto (sample_env [] 1752314400001)
     \<lparr>file' = None, body_description = Some ''no file part''\<rparr>
     (uploads node_crypto
        [(sample_env [utf8 ''abc''] 1752314400000, sample_request ''first.txt'' 3)] []) =
     ((400, ErrorBody ''No file uploaded'' None),
      uploads node_crypto
        [(sample_env [utf8 ''abc''] 1752314400000, sample_request ''first.txt'' 3)] []) \<and>
   fst (fst (upload node_crypto
     \<lparr>createReadStream = (\<lambda>p. Failed [utf8 ''ab''] ''EIO: i/o error, read''),
        unlinkSync = (\<lambda>p. None), now_ipfs = 1752314400001, now_id = 1752314400001,
        now_iso = ''2025-07-12T10:00:00.001Z''\<rparr>
     (sample_request ''broken.txt'' 3)
     (uploads node_crypto
        [(sample_env [utf8 ''abc''] 1752314400000, sample_request ''first.txt'' 3)] []))) = 500 \<and>
   snd (upload node_crypto
     \<lparr>createReadStream = (\<lambda>p. Failed [utf8 ''ab''] ''EIO: i/o error, read''),
        unlinkSync = (\<lambda>p. None), now_ipfs = 1752314400001, now_id = 1752314400001,
        now_iso = ''2025-07-12T10:00:00.001Z''\<rparr>
     (sample_request ''broken.txt'' 3)
     (uploads node_crypto
        [(sample_env [utf8 ''abc''] 1752314400000, sample_request ''first.txt'' 3)] [])) =
     uploads node_crypto
        [(sample_env [utf8 ''abc''] 1752314400000, sample_request ''first.txt'' 3)] []"
proof -
  let ?table = "uploads node_crypto
        [(sample_env [utf8 ''abc''] 1752314400000, sample_request ''first.txt'' 3)] []"
  let ?e = "\<lparr>createReadStream = (\<lambda>p. Failed [utf8 ''ab''] ''EIO: i/o error, read''),
        unlinkSync = (\<lambda>p. None), now_ipfs = 1752314400001, now_id = 1752314400001,
        now_iso = ''2025-07-12T10:00:00.001Z''\<rparr>"
  have "fst (fst (upload node_crypto ?e (sample_request ''broken.txt'' 3) ?table)) = 500"
    by (simp add: upload_def sample_request_sel calculateFileHash_def)
  then show ?thesis
    using
      upload_requires_file
        [of "\<lparr>file' = None, body_description = Some ''no file part''\<rparr>" node_crypto
            "sample_env [] 1752314400001" ?table]
      upload_requires_file [of "sample_request ''broken.txt'' 3" node_crypto ?e ?table]
    by simp
qed

text \<open>
  Claim C4 as stated (registration fails with InvalidInput whenever the content is
  empty, adding no record) does not hold: the upload of an empty file answers 200 and
  adds a record with the SHA-256 fingerprint of the empty byte sequence.
\<close>

theorem empty_content_accepted:
  "fst (fst (upload node_crypto (sample_env [] 1752314400000)
               (sample_request ''empty.txt'' 0) [])) = 200 \<and>
   map (\<lambda>r. (originalName r, fileHash r, size' r))
     (Map_values (snd (upload node_crypto (sample_env [] 1752314400000)
               (sample_request ''empty.txt'' 0) []))) =
     [(''empty.txt'', ''e3b0c44298fc1c149afbf4c8996fb92427ae41e4649b934ca495991b7852b855'', 0)]"
  by (simp add: sample_simps sha256_empty)

subsection \<open>C5: the audit listing and its filter\<close>

text \<open>
  Claim C5, as the code has it. After any sequence of successful uploads served at
  pairwise distinct clock readings, starting from the empty table, the listing reports
  as many summaries as there were uploads, in the order of the uploads, each being the
  summary its upload answered. Whatever the runtime's \<open>trim\<close> and \<open>toLowerCase\<close>
  are: a search term that \<open>trim\<close> empties leaves the rows unfiltered; any other term
  keeps, in order, exactly the rows in which the term in lowercase occurs in the
  lowercase of the name, of the description or of the fingerprint.
\<close>

theorem audit_listing:
  "((\<forall>(e, req)\<in>set calls. fst (fst (upload lib e req [])) = 200) \<and>
    distinct (map (\<lambda>(e, req). now_id e) calls) \<longrightarrow>
      (\<exists>listed.
         fst (get_files (uploads lib calls [])) = (200, FilesBody (length calls) listed) \<and>
         list_all2 (\<lambda>(e, req) d. \<forall>s. uploaded (fst (upload lib e req s)) = Some d)
           calls listed)) \<and>
   (trim str searchTerm = [] \<longrightarrow> filteredFiles str searchTerm files = files) \<and>
   (trim str searchTerm \<noteq> [] \<longrightarrow>
      filteredFiles str searchTerm files =
        filter (\<lambda>file. occurs_ignoring_case str searchTerm (originalName file) \<or>
                        occurs_ignoring_case str searchTerm (description file) \<or>
                        occurs_ignoring_case str searchTerm (fileHash file)) files)"
proof -
  have listing: "\<exists>listed.
         fst (get_files (uploads lib calls [])) = (200, FilesBody (length calls) listed) \<and>
         list_all2 (\<lambda>(e, req) d. \<forall>s. uploaded (fst (upload lib e req s)) = Some d)
           calls listed"
    if ok: "\<forall>(e, req)\<in>set calls. fst (fst (upload lib e req [])) = 200"
      and dist: "distinct (map (\<lambda>(e, req). now_id e) calls)"
  proof -
    have "\<forall>(e, req)\<in>set calls. toString (now_id e) \<notin> fst ` set ([] :: store)" by simp
    from uploads_fresh [OF ok dist this]
    obtain rs where rs: "uploads lib calls [] = rs"
      and all: "list_all2 (\<lambda>(e, req) (k, r). k = toString (now_id e) \<and>
            (\<forall>s'. upload lib e req s' =
              ((200, UploadBody ''File uploaded and hashed successfully'' (summary r)),
               Map_set k r s'))) calls rs"
      by auto
    from all have len: "length rs = length calls" by (simp add: list_all2_lengthD)
    have "list_all2 (\<lambda>(e, req) d. \<forall>s. uploaded (fst (upload lib e req s)) = Some d)
            calls (map (\<lambda>(k, r). summary r) rs)"
      unfolding list_all2_map2
      by (rule list_all2_mono [OF all]) (auto simp: uploaded_def)
    moreover have "fst (get_files rs) =
        (200, FilesBody (length calls) (map (\<lambda>(k, r). summary r) rs))"
      by (simp add: get_files_def Map_values_def Let_def len split_def)
    ultimately show ?thesis unfolding rs by blast
  qed
  have "filteredFiles str searchTerm files =
        filter (\<lambda>file. occurs_ignoring_case str searchTerm (originalName file) \<or>
                        occurs_ignoring_case str searchTerm (description file) \<or>
                        occurs_ignoring_case str searchTerm (fileHash file)) files"
    if "trim str searchTerm \<noteq> []"
    using that by (simp add: filteredFiles_def lower_occurs)
  moreover have "trim str searchTerm = [] \<longrightarrow> filteredFiles str searchTerm files = files"
    by (simp add: filteredFiles_def)
  ultimately show ?thesis using listing by blast
qed

theorem audit_listing_witness:
  "fst (fst (upload node_crypto (sample_env [utf8 ''abc''] 1752314400000)
               (sample_request ''first.txt'' 3) [])) = 200 \<and>
   fst (fst (upload node_crypto (sample_env [] 1752314400001)
               (sample_request ''second.txt'' 0) [])) = 200 \<and>
   map_option (map (\<lambda>d. (id' d, originalName d, fileHash d)))
     (loadFiles (fst (get_files (uploads node_crypto
        [(sample_env [utf8 ''abc''] 1752314400000, sample_request ''first.txt'' 3),
         (sample_env [] 1752314400001, sample_request ''second.txt'' 0)] [])))) =
     Some [(''1752314400000'', ''first.txt'',
            ''ba7816bf8f01cfea414140de5dae2223b00361a396177a9cb410ff61f20015ad''),
           (''1752314400001'', ''second.txt'',
            ''e3b0c44298fc1c149afbf4c8996fb92427ae41e4649b934ca495991b7852b855'')] \<and>
   filteredFiles js_strings ''FIRST''
     [\<lparr>id' = ''1752314400000'', originalName = ''first.txt'',
        fileHash = ''ba7816bf8f01cfea414140de5dae2223b00361a396177a9cb410ff61f20015ad'',
        uploadTime = ''2025-07-12T10:00:00.000Z'', description = ''sample'',
        ipfsHash = ''Qm570c29c760f44cbf079b50fb14f0730af36e7a08'', size' = 3,
        mimetype = ''text/plain''\<rparr>,
      \<lparr>id' = ''1752314400001'', originalName = ''second.txt'',
        fileHash = ''e3b0c44298fc1c149afbf4c8996fb92427ae41e4649b934ca495991b7852b855'',
        uploadTime = ''2025-07-12T10:00:00.000Z'', description = ''sample'',
        ipfsHash = ''Qmd20449665f21f69e6afcfca8b53063addd585756'', size' = 0,
        mimetype = ''text/plain''\<rparr>] =
     [\<lparr>id' = ''1752314400000'', originalName = ''first.txt'',
        fileHash = ''ba7816bf8f01cfea414140de5dae2223b00361a396177a9cb410ff61f20015ad'',
        uploadTime = ''2025-07-12T10:00:00.000Z'', description = ''sample'',
        ipfsHash = ''Qm570c29c760f44cbf079b50fb14f0730af36e7a08'', size' = 3,
        mimetype = ''text/plain''\<rparr>] \<and>
   filteredFiles js_strings ''e3B0c4''
     [\<lparr>id' = ''1752314400000'', originalName = ''first.txt'',
        fileHash = ''ba7816bf8f01cfea414140de5dae2223b00361a396177a9cb410ff61f20015ad'',
        uploadTime = ''2025-07-12T10:00:00.000Z'', description = ''sample'',
        ipfsHash = ''Qm570c29c760f44cbf079b50fb14f0730af36e7a08'', size' = 3,
        mimetype = ''text/plain''\<rparr>,
      \<lparr>id' = ''1752314400001'', originalName = ''second.txt'',
        fileHash = ''e3b0c44298fc1c149afbf4c8996fb92427ae41e4649b934ca495991b7852b855'',
        uploadTime = ''2025-07-12T10:00:00.000Z'', description = ''sample'',
        ipfsHash = ''Qmd20449665f21f69e6afcfca8b53063addd585756'', size' = 0,
        mimetype = ''text/plain''\<rparr>] =
     [\<lparr>id' = ''1752314400001'', originalName = ''second.txt'',
        fileHash = ''e3b0c44298fc1c149afbf4c8996fb92427ae41e4649b934ca495991b7852b855'',
        uploadTime = ''2025-07-12T10:00:00.000Z'', description = ''sample'',
        ipfsHash = ''Qmd20449665f21f69e6afcfca8b53063addd585756'', size' = 0,
        mimetype = ''text/plain''\<rparr>] \<and>
   filteredFiles js_strings ''Sample''
     [\<lparr>id' = ''1752314400000'', originalName = ''first.txt'',
        fileHash = ''ba7816bf8f01cfea414140de5dae2223b00361a396177a9cb410ff61f20015ad'',
        uploadTime = ''2025-07-12T10:00:00.000Z'', description = ''sample'',
        ipfsHash = ''Qm570c29c760f44cbf079b50fb14f0730af36e7a08'', size' = 3,
        mimetype = ''text/plain''\<rparr>,
      \<lparr>id' = ''1752314400001'', originalName = ''second.txt'',
        fileHash = ''e3b0c44298fc1c149afbf4c8996fb92427ae41e4649b934ca495991b7852b855'',
        uploadTime = ''2025-07-12T10:00:00.000Z'', description = ''sample'',
        ipfsHash = ''Qmd20449665f21f69e6afcfca8b53063addd585756'', size' = 0,
        mimetype = ''text/plain''\<rparr>] =
     [\<lparr>id' = ''1752314400000'', originalName = ''first.txt'',
        fileHash = ''ba7816bf8f01cfea414140de5dae2223b00361a396177a9cb410ff61f20015ad'',
        uploadTime = ''2025-07-12T10:00:00.000Z'', description = ''sample'',
        ipfsHash = ''Qm570c29c760f44cbf079b50fb14f0730af36e7a08'', size' = 3,
        mimetype = ''text/plain''\<rparr>,
      \<lparr>id' = ''1752314400001'', originalName = ''second.txt'',
        fileHash = ''e3b0c44298fc1c149afbf4c8996fb92427ae41e4649b934ca495991b7852b855'',
        uploadTime = ''2025-07-12T10:00:00.000Z'', description = ''sample'',
        ipfsHash = ''Qmd20449665f21f69e6afcfca8b53063addd585756'', size' = 0,
        mimetype = ''text/plain''\<rparr>]"
proof -
  let ?calls = "[(sample_env [utf8 ''abc''] 1752314400000, sample_request ''first.txt'' 3),
         (sample_env [] 1752314400001, sample_request ''second.txt'' 0)]"
  let ?files = "[\<lparr>id' = ''1752314400000'', originalName = ''first.txt'',
        fileHash = ''ba7816bf8f01cfea414140de5dae2223b00361a396177a9cb410ff61f20015ad'',
        uploadTime = ''2025-07-12T10:00:00.000Z'', description = ''sample'',
        ipfsHash = ''Qm570c29c760f44cbf079b50fb14f0730af36e7a08'', size' = 3,
        mimetype = ''text/plain''\<rparr>,
      \<lparr>id' = ''1752314400001'', originalName = ''second.txt'',
        fileHash = ''e3b0c44298fc1c149afbf4c8996fb92427ae41e4649b934ca495991b7852b855'',
        uploadTime = ''2025-07-12T10:00:00.000Z'', description = ''sample'',
        ipfsHash = ''Qmd20449665f21f69e6afcfca8b53063addd585756'', size' = 0,
        mimetype = ''text/plain''\<rparr>]"
  have ok: "\<forall>(e, req)\<in>set ?calls. fst (fst (upload node_crypto e req [])) = 200"
    by (simp add: sample_simps)
  have dist: "distinct (map (\<lambda>(e, req). now_id e) ?calls)"
    by (simp add: sample_env_sel)
  have listed: "map_option (map (\<lambda>d. (id' d, originalName d, fileHash d)))
     (loadFiles (fst (get_files (uploads node_crypto ?calls [])))) =
     Some [(''1752314400000'', ''first.txt'',
            ''ba7816bf8f01cfea414140de5dae2223b00361a396177a9cb410ff61f20015ad''),
           (''1752314400001'', ''second.txt'',
            ''e3b0c44298fc1c149afbf4c8996fb92427ae41e4649b934ca495991b7852b855'')]"
    by (simp add: sample_simps get_files_def loadFiles_def sha256_abc sha256_empty)
  have t: "trim js_strings ''FIRST'' \<noteq> []" "trim js_strings ''e3B0c4'' \<noteq> []" "trim js_strings ''Sample'' \<noteq> []"
    by code_simp+
  have f1: "filteredFiles js_strings ''FIRST'' ?files = [\<lparr>id' = ''1752314400000'', originalName = ''first.txt'',
        fileHash = ''ba7816bf8f01cfea414140de5dae2223b00361a396177a9cb410ff61f20015ad'',
        uploadTime = ''2025-07-12T10:00:00.000Z'', description = ''sample'',
        ipfsHash = ''Qm570c29c760f44cbf079b50fb14f0730af36e7a08'', size' = 3,
        mimetype = ''text/plain''\<rparr>]"
    by code_simp
  have f2: "filteredFiles js_strings ''e3B0c4'' ?files = [\<lparr>id' = ''1752314400001'', originalName = ''second.txt'',
        fileHash = ''e3b0c44298fc1c149afbf4c8996fb92427ae41e4649b934ca495991b7852b855'',
        uploadTime = ''2025-07-12T10:00:00.000Z'', description = ''sample'',
        ipfsHash = ''Qmd20449665f21f69e6afcfca8b53063addd585756'', size' = 0,
        mimetype = ''text/plain''\<rparr>]"
    by code_simp
  have f3: "filteredFiles js_strings ''Sample'' ?files = ?files"
    by code_simp
  from ok have "fst (fst (upload node_crypto (sample_env [utf8 ''abc''] 1752314400000)
               (sample_request ''first.txt'' 3) [])) = 200"
    and "fst (fst (upload node_crypto (sample_env [] 1752314400001)
               (sample_request ''second.txt'' 0) [])) = 200"
    by simp_all
  with listed f1 f2 f3 show ?thesis
    using audit_listing
      [where calls = ?calls and lib = node_crypto and str = js_strings
         and searchTerm = "''FIRST''" and files = ?files]
    by (simp only: simp_thms)
qed

text \<open>
  Claim C5 as stated (after n successful registrations the listing holds exactly n
  summaries; a supplied filter string restricts the rows to those where it occurs)
  does not hold: two uploads served at the same clock reading leave one summary, and
  the search term of a single space leaves a row in place in which no field contains
  a space.
\<close>

theorem listing_counterexample:
  "fst (fst (upload node_crypto (sample_env [utf8 ''abc''] 1752314400000)
               (sample_request ''first.txt'' 3) [])) = 200 \<and>
   fst (fst (upload node_crypto (sample_env [] 1752314400000)
               (sample_request ''second.txt'' 0)
               (uploads node_crypto
                  [(sample_env [utf8 ''abc''] 1752314400000, sample_request ''first.txt'' 3)]
                  []))) = 200 \<and>
   map_option (map originalName)
     (loadFiles (fst (get_files (uploads node_crypto
        [(sample_env [utf8 ''abc''] 1752314400000, sample_request ''first.txt'' 3),
         (sample_env [] 1752314400000, sample_request ''second.txt'' 0)] [])))) =
     Some [''second.txt''] \<and>
   filteredFiles js_strings '' ''
     [\<lparr>id' = ''1752314400000'', originalName = ''first.txt'', fileHash = ''ba78'',
       uploadTime = ''2025-07-12T10:00:00.000Z'', description = ''sample'',
       ipfsHash = ''Qm00'', size' = 3, mimetype = ''text/plain''\<rparr>] =
     [\<lparr>id' = ''1752314400000'', originalName = ''first.txt'', fileHash = ''ba78'',
       uploadTime = ''2025-07-12T10:00:00.000Z'', description = ''sample'',
       ipfsHash = ''Qm00'', size' = 3, mimetype = ''text/plain''\<rparr>] \<and>
   \<not> includes' (toLowerCase js_strings ''first.txt'') (toLowerCase js_strings '' '') \<and>
   \<not> includes' (toLowerCase js_strings ''sample'') (toLowerCase js_strings '' '') \<and>
   \<not> includes' (toLowerCase js_strings ''ba78'') (toLowerCase js_strings '' '')"
proof -
  have blank: "trim js_strings '' '' = []" by code_simp
  have no: "\<not> includes' (toLowerCase js_strings ''first.txt'') (toLowerCase js_strings '' '')"
    "\<not> includes' (toLowerCase js_strings ''sample'') (toLowerCase js_strings '' '')"
    "\<not> includes' (toLowerCase js_strings ''ba78'') (toLowerCase js_strings '' '')"
    by code_simp+
  have "map_option (map originalName)
     (loadFiles (fst (get_files (uploads node_crypto
        [(sample_env [utf8 ''abc''] 1752314400000, sample_request ''first.txt'' 3),
         (sample_env [] 1752314400000, sample_request ''second.txt'' 0)] [])))) =
     Some [''second.txt'']"
    by (simp add: sample_simps get_files_def loadFiles_def)
  with no blank show ?thesis
    by (simp add: sample_simps filteredFiles_def)
qed

subsection \<open>C6: negative verification\<close>

text \<open>
  Claim C6: when the uploaded file is read to its end, its temporary copy is removed
  and no stored record carries its fingerprint, verification by content answers 200
  with \<open>isValid: false\<close>, no record data, and \<open>calculatedHash\<close> equal to the
  fingerprint that \<open>calculateFileHash\<close> computes for the file; the table is returned
  unchanged. A miss is an ordinary answer, not an error.
\<close>

theorem verify_miss_is_success:
  assumes "file' req = Some f"
    and "createReadStream e (path f) = Ended cs"
    and "unlinkSync e (path f) = None"
    and "\<forall>r\<in>set (Map_values fileRecords). fileHash r \<noteq> hex (lib ''sha256'' (concat cs))"
  shows "calculateFileHash lib e (path f) = Inr (hex (lib ''sha256'' (concat cs))) \<and>
         verify lib e req fileRecords =
           ((200, VerifyBody False ''File not found or has been tampered with'' None
                    (Some (hex (lib ''sha256'' (concat cs))))),
            fileRecords)"
proof -
  have h: "calculateFileHash lib e (path f) = Inr (hex (lib ''sha256'' (concat cs)))"
    using assms(2) by (rule calculateFileHash_Ended)
  have "find (\<lambda>r. fileHash r = hex (lib ''sha256'' (concat cs))) (Map_values fileRecords) = None"
    using assms(4) by (simp add: find_None_iff)
  with h assms(1,3) show ?thesis by (simp add: verify_def)
qed

theorem verify_miss_is_success_witness:
  "verify node_crypto (sample_env [] 1752314400002) (sample_request ''other.txt'' 0)
     (uploads node_crypto
        [(sample_env [utf8 ''abc''] 1752314400000, sample_request ''first.txt'' 3)] []) =
     ((200, VerifyBody False ''File not found or has been tampered with'' None
              (Some ''e3b0c44298fc1c149afbf4c8996fb92427ae41e4649b934ca495991b7852b855'')),
      uploads node_crypto
        [(sample_env [utf8 ''abc''] 1752314400000, sample_request ''first.txt'' 3)] [])"
  using verify_miss_is_success
    [of "sample_request ''other.txt'' 0"
        "\<lparr>originalname = ''other.txt'', path = ''uploads/'' @ ''other.txt'', size' = 0,
           mimetype = ''text/plain''\<rparr>"
        "sample_env [] 1752314400002" "[]"
        "uploads node_crypto
           [(sample_env [utf8 ''abc''] 1752314400000, sample_request ''first.txt'' 3)] []"
        node_crypto]
  by (simp add: sample_simps node_crypto_def sha256_abc sha256_empty)

subsection \<open>C7: verification by fingerprint\<close>

text \<open>
  Claim C7: for a string \<open>f\<close> sent as \<open>fileHash\<close>, the handler answers 400 exactly
  when \<open>f\<close> is empty. For a non-empty \<open>f\<close> it answers 200: with \<open>isValid: false\<close>
  and neither data nor \<open>calculatedHash\<close> when no stored record has fingerprint \<open>f\<close>,
  and otherwise with \<open>isValid: true\<close> and the identifier, name, fingerprint, upload
  time and description of a stored record whose fingerprint is \<open>f\<close>. The handler takes
  no digest function: it compares strings and hashes nothing.
\<close>

theorem verify_hash_lookup:
  "(fst (fst (verify_hash (Str f) fileRecords)) = 400 \<longleftrightarrow> f = []) \<and>
   (f = [] \<longrightarrow>
      fst (verify_hash (Str f) fileRecords) = (400, ErrorBody ''File hash is required'' None)) \<and>
   (f \<noteq> [] \<and> (\<forall>r\<in>set (Map_values fileRecords). fileHash r \<noteq> f) \<longrightarrow>
      fst (verify_hash (Str f) fileRecords) =
        (200, VerifyBody False ''File hash not found in records'' None None)) \<and>
   (f \<noteq> [] \<and> (\<exists>r\<in>set (Map_values fileRecords). fileHash r = f) \<longrightarrow>
      (\<exists>r\<in>set (Map_values fileRecords). fileHash r = f \<and>
         fst (verify_hash (Str f) fileRecords) =
           (200, VerifyBody True ''File hash found in records''
                   (Some \<lparr>id' = id' r, originalName = originalName r, fileHash = f,
                          uploadTime = uploadTime r, description = description r\<rparr>)
                   None)))"
proof -
  let ?P = "\<lambda>r. fileHash r = f"
  have a: "fst (fst (verify_hash (Str f) fileRecords)) = 400 \<longleftrightarrow> f = []"
    by (simp add: verify_hash_def falsy_def strict_eq_def split: option.splits)
  have b: "f = [] \<longrightarrow>
      fst (verify_hash (Str f) fileRecords) = (400, ErrorBody ''File hash is required'' None)"
    by (simp add: verify_hash_def falsy_def)
  have c: "f \<noteq> [] \<and> (\<forall>r\<in>set (Map_values fileRecords). fileHash r \<noteq> f) \<longrightarrow>
      fst (verify_hash (Str f) fileRecords) =
        (200, VerifyBody False ''File hash not found in records'' None None)"
  proof
    assume h: "f \<noteq> [] \<and> (\<forall>r\<in>set (Map_values fileRecords). fileHash r \<noteq> f)"
    then have "find ?P (Map_values fileRecords) = None"
      by (simp add: find_None_iff)
    with h show "fst (verify_hash (Str f) fileRecords) =
        (200, VerifyBody False ''File hash not found in records'' None None)"
      by (simp add: verify_hash_def falsy_def strict_eq_def)
  qed
  have d: "f \<noteq> [] \<and> (\<exists>r\<in>set (Map_values fileRecords). fileHash r = f) \<longrightarrow>
      (\<exists>r\<in>set (Map_values fileRecords). fileHash r = f \<and>
         fst (verify_hash (Str f) fileRecords) =
           (200, VerifyBody True ''File hash found in records''
                   (Some \<lparr>id' = id' r, originalName = originalName r, fileHash = f,
                          uploadTime = uploadTime r, description = description r\<rparr>)
                   None))"
  proof
    assume h: "f \<noteq> [] \<and> (\<exists>r\<in>set (Map_values fileRecords). fileHash r = f)"
    then obtain r where r: "find ?P (Map_values fileRecords) = Some r"
      by (cases "find ?P (Map_values fileRecords)") (auto simp: find_None_iff)
    then have "r \<in> set (Map_values fileRecords)" and "fileHash r = f"
      by (auto simp: find_Some_iff)
    moreover have "fst (verify_hash (Str f) fileRecords) =
           (200, VerifyBody True ''File hash found in records'' (Some (found_data r)) None)"
      using h r by (simp add: verify_hash_def falsy_def strict_eq_def)
    ultimately show "\<exists>r\<in>set (Map_values fileRecords). fileHash r = f \<and>
         fst (verify_hash (Str f) fileRecords) =
           (200, VerifyBody True ''File hash found in records''
                   (Some \<lparr>id' = id' r, originalName = originalName r, fileHash = f,
                          uploadTime = uploadTime r, description = description r\<rparr>)
                   None)"
      by (auto simp: found_data_def)
  qed
  from a b c d show ?thesis by blast
qed

theorem verify_hash_lookup_witness:
  "fst (verify_hash (Str [])
          (uploads node_crypto
             [(sample_env [utf8 ''abc''] 1752314400000, sample_request ''first.txt'' 3)] [])) =
     (400, ErrorBody ''File hash is required'' None) \<and>
   fst (verify_hash (Str ''e3b0c44298fc1c149afbf4c8996fb92427ae41e4649b934ca495991b7852b855'')
          (uploads node_crypto
             [(sample_env [utf8 ''abc''] 1752314400000, sample_request ''first.txt'' 3)] [])) =
     (200, VerifyBody False ''File hash not found in records'' None None) \<and>
   fst (verify_hash (Str ''ba7816bf8f01cfea414140de5dae2223b00361a396177a9cb410ff61f20015ad'')
          (uploads node_crypto
             [(sample_env [utf8 ''abc''] 1752314400000, sample_request ''first.txt'' 3)] [])) =
     (200, VerifyBody True ''File hash found in records''
        (Some \<lparr>id' = ''1752314400000'', originalName = ''first.txt'',
               fileHash = ''ba7816bf8f01cfea414140de5dae2223b00361a396177a9cb410ff61f20015ad'',
               uploadTime = ''2025-07-12T10:00:00.000Z'', description = ''sample''\<rparr>)
        None)"
  using
    verify_hash_lookup
      [of "[]" "uploads node_crypto
           [(sample_env [utf8 ''abc''] 1752314400000, sample_request ''first.txt'' 3)] []"]
    verify_hash_lookup
      [of "''e3b0c44298fc1c149afbf4c8996fb92427ae41e4649b934ca495991b7852b855''"
          "uploads node_crypto
           [(sample_env [utf8 ''abc''] 1752314400000, sample_request ''first.txt'' 3)] []"]
    verify_hash_lookup
      [of "''ba7816bf8f01cfea414140de5dae2223b00361a396177a9cb410ff61f20015ad''"
          "uploads node_crypto
           [(sample_env [utf8 ''abc''] 1752314400000, sample_request ''first.txt'' 3)] []"]
  by (simp add: sample_simps sha256_abc)

subsection \<open>C8: the fingerprint\<close>

text \<open>
  Claim C8: the fingerprint depends on the bytes of the file only. Two streams that
  end after delivering the same bytes, in whatever chunks, from whatever path, give the
  same result; the result is the hexadecimal rendering of the digest of the bytes, and
  for a digest of 32 bytes it has 64 characters, all of them lowercase hexadecimal
  digits.
\<close>

theorem fingerprint_deterministic_hex:
  assumes "createReadStream e p = Ended cs"
    and "createReadStream e' p' = Ended cs'"
    and "concat cs' = concat cs"
    and "length (lib ''sha256'' (concat cs)) = 32"
  shows "calculateFileHash lib e' p' = calculateFileHash lib e p \<and>
         calculateFileHash lib e p = Inr (hex (lib ''sha256'' (concat cs))) \<and>
         length (hex (lib ''sha256'' (concat cs))) = 64 \<and>
         set (hex (lib ''sha256'' (concat cs))) \<subseteq> lower_hex"
  using assms by (simp add: calculateFileHash_Ended length_hex hex_chars)

theorem fingerprint_deterministic_hex_witness:
  "calculateFileHash node_crypto (sample_env [utf8 ''abc''] 1752314400001) ''uploads/b'' =
     calculateFileHash node_crypto (sample_env [utf8 ''ab'', utf8 ''c''] 1752314400000) ''uploads/a'' \<and>
   calculateFileHash node_crypto (sample_env [utf8 ''ab'', utf8 ''c''] 1752314400000) ''uploads/a'' =
     Inr ''ba7816bf8f01cfea414140de5dae2223b00361a396177a9cb410ff61f20015ad'' \<and>
   length ''ba7816bf8f01cfea414140de5dae2223b00361a396177a9cb410ff61f20015ad'' = 64 \<and>
   set ''ba7816bf8f01cfea414140de5dae2223b00361a396177a9cb410ff61f20015ad'' \<subseteq> lower_hex"
proof -
  have abc: "concat [utf8 ''ab'', utf8 ''c''] = utf8 ''abc''" by (simp add: utf8_def)
  have "hex (node_crypto ''sha256'' (concat [utf8 ''ab'', utf8 ''c''])) =
      ''ba7816bf8f01cfea414140de5dae2223b00361a396177a9cb410ff61f20015ad''"
    unfolding abc by (simp add: node_crypto_def sha256_abc)
  moreover have "length (node_crypto ''sha256'' (concat [utf8 ''ab'', utf8 ''c''])) = 32"
    by (simp add: node_crypto_def length_sha256)
  moreover have "concat [utf8 ''abc''] = concat [utf8 ''ab'', utf8 ''c'']"
    by (simp add: utf8_def)
  ultimately show ?thesis
    using fingerprint_deterministic_hex
      [of "sample_env [utf8 ''ab'', utf8 ''c''] 1752314400000" "''uploads/a''"
          "[utf8 ''ab'', utf8 ''c'']"
          "sample_env [utf8 ''abc''] 1752314400001" "''uploads/b''" "[utf8 ''abc'']"
          node_crypto]
    by (simp add: sample_env_sel)
qed

subsection \<open>C9: verification leaves the table alone\<close>

text \<open>
  Claim C9: whatever the request and whatever the outcome, both verification handlers
  return the record table they were given.
\<close>

theorem verification_read_only:
  "snd (verify lib e req fileRecords) = fileRecords \<and>
   snd (verify_hash h fileRecords) = fileRecords"
  by (simp add: verify_def verify_hash_def split: option.splits sum.splits)

theorem verification_read_only_witness:
  "snd (verify node_crypto (sample_env [utf8 ''abc''] 1752314400002)
          (sample_request ''check.txt'' 3)
          (uploads node_crypto
             [(sample_env [utf8 ''abc''] 1752314400000, sample_request ''first.txt'' 3)] [])) =
     uploads node_crypto
       [(sample_env [utf8 ''abc''] 1752314400000, sample_request ''first.txt'' 3)] [] \<and>
   snd (verify_hash (Str ''ba7816bf8f01cfea414140de5dae2223b00361a396177a9cb410ff61f20015ad'')
          (uploads node_crypto
             [(sample_env [utf8 ''abc''] 1752314400000, sample_request ''first.txt'' 3)] [])) =
     uploads node_crypto
       [(sample_env [utf8 ''abc''] 1752314400000, sample_request ''first.txt'' 3)] []"
  using verification_read_only
    [of node_crypto "sample_env [utf8 ''abc''] 1752314400002" "sample_request ''check.txt'' 3"
        "uploads node_crypto
           [(sample_env [utf8 ''abc''] 1752314400000, sample_request ''first.txt'' 3)] []"
        "Str ''ba7816bf8f01cfea414140de5dae2223b00361a396177a9cb410ff61f20015ad''"]
  by blast

subsection \<open>C10: which match is reported\<close>

text \<open>
  Both verification handlers report the first record, in the order of the table, that
  carries the fingerprint, whatever records follow it, matching or not.
\<close>

lemma first_match_in_table:
  assumes "Map_values fileRecords = earlier @ r # later"
    and "\<forall>x\<in>set earlier. fileHash x \<noteq> fileHash r"
  shows "(fileHash r \<noteq> [] \<longrightarrow>
            fst (verify_hash (Str (fileHash r)) fileRecords) =
              (200, VerifyBody True ''File hash found in records''
                      (Some \<lparr>id' = id' r, originalName = originalName r,
                             fileHash = fileHash r, uploadTime = uploadTime r,
                             description = description r\<rparr>) None)) \<and>
         (file' req = Some f \<and> createReadStream e (path f) = Ended cs \<and>
          unlinkSync e (path f) = None \<and> hex (lib ''sha256'' (concat cs)) = fileHash r \<longrightarrow>
            fst (verify lib e req fileRecords) =
              (200, VerifyBody True ''File integrity verified successfully''
                      (Some \<lparr>id' = id' r, originalName = originalName r,
                             fileHash = fileHash r, uploadTime = uploadTime r,
                             description = description r\<rparr>) None))"
proof -
  have "find (\<lambda>x. fileHash x = fileHash r) (Map_values fileRecords) = Some r"
    using assms by (simp add: find_first)
  then show ?thesis
    by (auto simp: verify_hash_def verify_def falsy_def strict_eq_def calculateFileHash_Ended
        found_data_def)
qed

text \<open>
  After a run of successful uploads served at pairwise distinct clock readings, starting
  from the empty table, the order of the table is the order of the uploads, so the
  record reported for a fingerprint is that of the earliest upload with the fingerprint.
\<close>

lemma earliest_upload_reported:
  assumes ok: "\<forall>(e, req)\<in>set calls. fst (fst (upload lib e req [])) = 200"
    and dist: "distinct (map (\<lambda>(e, req). now_id e) calls)"
    and calls: "calls = before @ (e0, req0) # after"
    and d: "uploaded (fst (upload lib e0 req0 [])) = Some d"
    and first: "\<forall>(e, req)\<in>set before. \<forall>d'.
        uploaded (fst (upload lib e req [])) = Some d' \<longrightarrow> fileHash d' \<noteq> fileHash d"
  shows "(fileHash d \<noteq> [] \<longrightarrow>
            fst (verify_hash (Str (fileHash d)) (uploads lib calls [])) =
              (200, VerifyBody True ''File hash found in records''
                      (Some \<lparr>id' = id' d, originalName = originalName d,
                             fileHash = fileHash d, uploadTime = uploadTime d,
                             description = description d\<rparr>) None)) \<and>
         (file' req = Some f \<and> createReadStream e (path f) = Ended cs \<and>
          unlinkSync e (path f) = None \<and> hex (lib ''sha256'' (concat cs)) = fileHash d \<longrightarrow>
            fst (verify lib e req (uploads lib calls [])) =
              (200, VerifyBody True ''File integrity verified successfully''
                      (Some \<lparr>id' = id' d, originalName = originalName d,
                             fileHash = fileHash d, uploadTime = uploadTime d,
                             description = description d\<rparr>) None))"
proof -
  let ?P = "\<lambda>(e, req) (k, r). k = toString (now_id e) \<and> (\<forall>s'. upload lib e req s' =
              ((200, UploadBody ''File uploaded and hashed successfully'' (summary r)),
               Map_set k r s'))"
  have "\<forall>(e, req)\<in>set calls. toString (now_id e) \<notin> fst ` set ([] :: store)" by simp
  from uploads_fresh [OF ok dist this]
  obtain rs where rs: "uploads lib calls [] = rs" and all: "list_all2 ?P calls rs"
    by auto
  from all calls obtain us vs where split: "rs = us @ vs" and us: "list_all2 ?P before us"
    and vs: "list_all2 ?P ((e0, req0) # after) vs"
    by (auto simp: list_all2_append1)
  from vs obtain k r vs' where v: "vs = (k, r) # vs'" and r: "?P (e0, req0) (k, r)"
    by (auto simp: list_all2_Cons1)
  from r d have sum: "summary r = d" by (simp add: uploaded_def)
  then have fields: "id' d = id' r" "originalName d = originalName r" "fileHash d = fileHash r"
    "uploadTime d = uploadTime r" "description d = description r"
    by (auto simp: summary_def)
  have tbl: "Map_values (uploads lib calls []) = map snd us @ r # map snd vs'"
    by (simp add: rs split v Map_values_def)
  have none: "\<forall>x\<in>set (map snd us). fileHash x \<noteq> fileHash r"
  proof
    fix x assume "x \<in> set (map snd us)"
    then obtain i where i: "i < length us" and x: "x = snd (us ! i)"
      by (auto simp: in_set_conv_nth)
    from us i have p: "?P (before ! i) (us ! i)" by (rule list_all2_nthD2)
    from us i have ib: "i < length before" by (simp add: list_all2_lengthD)
    obtain e1 req1 where c1: "before ! i = (e1, req1)" by (cases "before ! i")
    obtain k1 r1 where u1: "us ! i = (k1, r1)" by (cases "us ! i")
    from p c1 u1 have "uploaded (fst (upload lib e1 req1 [])) = Some (summary r1)"
      by (simp add: uploaded_def)
    moreover from ib c1 have "(e1, req1) \<in> set before" by (metis nth_mem)
    ultimately have "fileHash (summary r1) \<noteq> fileHash d" using first by blast
    then show "fileHash x \<noteq> fileHash r"
      by (simp add: x u1 fields summary_def)
  qed
  show ?thesis
    using first_match_in_table [OF tbl none, of req f e cs lib]
    by (simp add: fields)
qed

text \<open>
  Claim C10 (with several records of one fingerprint in the table, both handlers report
  the earliest-inserted one, not the most recent one). A record that is stored under a
  key already in the table takes the place of the record it replaces, so the first
  match of the table can be the record inserted last. After a.txt (empty) at the clock
  reading 1752314400000, b.txt ("abc") one millisecond later and, the clock having been
  set back, c.txt ("abc") at 1752314400000 again, all answered 200, the table holds
  c.txt and b.txt in this order, and both handlers report c.txt for the fingerprint of
  "abc", although b.txt was inserted before it.
\<close>

theorem reused_id_reports_latest:
  "fst (fst (upload node_crypto (sample_env [] 1752314400000) (sample_request ''a.txt'' 0)
               [])) = 200 \<and>
   fst (fst (upload node_crypto (sample_env [utf8 ''abc''] 1752314400001)
               (sample_request ''b.txt'' 3)
               (uploads node_crypto
                  [(sample_env [] 1752314400000, sample_request ''a.txt'' 0)] []))) = 200 \<and>
   fst (fst (upload node_crypto (sample_env [utf8 ''abc''] 1752314400000)
               (sample_request ''c.txt'' 3)
               (uploads node_crypto
                  [(sample_env [] 1752314400000, sample_request ''a.txt'' 0),
                   (sample_env [utf8 ''abc''] 1752314400001, sample_request ''b.txt'' 3)]
                  []))) = 200 \<and>
   map (\<lambda>r. (id' r, originalName r, fileHash r))
     (Map_values (uploads node_crypto
        [(sample_env [] 1752314400000, sample_request ''a.txt'' 0),
         (sample_env [utf8 ''abc''] 1752314400001, sample_request ''b.txt'' 3),
         (sample_env [utf8 ''abc''] 1752314400000, sample_request ''c.txt'' 3)] [])) =
     [(''1752314400000'', ''c.txt'',
       ''ba7816bf8f01cfea414140de5dae2223b00361a396177a9cb410ff61f20015ad''),
      (''1752314400001'', ''b.txt'',
       ''ba7816bf8f01cfea414140de5dae2223b00361a396177a9cb410ff61f20015ad'')] \<and>
   fst (verify_hash (Str ''ba7816bf8f01cfea414140de5dae2223b00361a396177a9cb410ff61f20015ad'')
          (uploads node_crypto
             [(sample_env [] 1752314400000, sample_request ''a.txt'' 0),
              (sample_env [utf8 ''abc''] 1752314400001, sample_request ''b.txt'' 3),
              (sample_env [utf8 ''abc''] 1752314400000, sample_request ''c.txt'' 3)] [])) =
     (200, VerifyBody True ''File hash found in records''
        (Some \<lparr>id' = ''1752314400000'', originalName = ''c.txt'',
               fileHash = ''ba7816bf8f01cfea414140de5dae2223b00361a396177a9cb410ff61f20015ad'',
               uploadTime = ''2025-07-12T10:00:00.000Z'', description = ''sample''\<rparr>)
        None) \<and>
   fst (verify node_crypto (sample_env [utf8 ''abc''] 1752314400002)
          (sample_request ''check.txt'' 3)
          (uploads node_crypto
             [(sample_env [] 1752314400000, sample_request ''a.txt'' 0),
              (sample_env [utf8 ''abc''] 1752314400001, sample_request ''b.txt'' 3),
              (sample_env [utf8 ''abc''] 1752314400000, sample_request ''c.txt'' 3)] [])) =
     (200, VerifyBody True ''File integrity verified successfully''
        (Some \<lparr>id' = ''1752314400000'', originalName = ''c.txt'',
               fileHash = ''ba7816bf8f01cfea414140de5dae2223b00361a396177a9cb410ff61f20015ad'',
               uploadTime = ''2025-07-12T10:00:00.000Z'', description = ''sample''\<rparr>)
        None)"
  by (simp add: sample_simps sha256_abc sha256_empty verify_def verify_hash_def
      calculateFileHash_sample falsy_def strict_eq_def found_data_def)

end
